theory Spec2Isabelle
  imports Complex_Main "HOL-Library.Sublist"
begin

section \<open>Strings and character classes\<close>

text \<open>
  A JavaScript string is modelled as an Isabelle \<open>string\<close>, one \<open>char\<close> per code unit
  (code units below 256).  The character classes are the ones the regular expressions of
  \<^verbatim>\<open>server/rules-updater.ts\<close> use: \<^verbatim>\<open>\d\<close> and \<^verbatim>\<open>[0-9]\<close>, \<^verbatim>\<open>[a-z]\<close>, \<^verbatim>\<open>[A-Z]\<close>,
  \<^verbatim>\<open>\s\<close> (tab, line feed, vertical tab, form feed, carriage return, space, no-break space)
  and the word characters \<^verbatim>\<open>[A-Za-z0-9_]\<close> that decide \<^verbatim>\<open>\b\<close>.
\<close>

definition is_digit :: "char \<Rightarrow> bool" where
  "is_digit c = (c \<in> set ''0123456789'')"

definition is_lower :: "char \<Rightarrow> bool" where
  "is_lower c = (c \<in> set ''abcdefghijklmnopqrstuvwxyz'')"

definition is_upper :: "char \<Rightarrow> bool" where
  "is_upper c = (c \<in> set ''ABCDEFGHIJKLMNOPQRSTUVWXYZ'')"

definition is_space :: "char \<Rightarrow> bool" where
  "is_space c = (c \<in> set [CHR 0x09, CHR 0x0A, CHR 0x0B, CHR 0x0C, CHR 0x0D, CHR 0x20, CHR 0xA0])"

definition is_word :: "char \<Rightarrow> bool" where
  "is_word c = (is_digit c \<or> is_lower c \<or> is_upper c \<or> c = CHR ''_'')"

definition non_digit :: "char \<Rightarrow> bool" where
  "non_digit c = (\<not> is_digit c)"

definition non_dot :: "char \<Rightarrow> bool" where
  "non_dot c = (c \<noteq> CHR ''.'')"

text \<open>\<^verbatim>\<open>String.prototype.trim\<close>: white space is removed at both ends.\<close>

definition trim :: "string \<Rightarrow> string" where
  "trim s = rev (dropWhile is_space (rev (dropWhile is_space s)))"

text \<open>\<^verbatim>\<open>s.split('.')\<close>: the pieces between the dots; never the empty array.\<close>

fun split_dot :: "string \<Rightarrow> string list" where
  "split_dot [] = [[]]"
| "split_dot (c # cs) =
     (if c = CHR ''.'' then [] # split_dot cs
      else (case split_dot cs of p # ps \<Rightarrow> (c # p) # ps | [] \<Rightarrow> [[c]]))"

text \<open>
  \<^verbatim>\<open>s.indexOf(pat)\<close>: the index of the first occurrence, or \<open>-1\<close>.
\<close>

fun indexOf_from :: "string \<Rightarrow> string \<Rightarrow> nat \<Rightarrow> int" where
  "indexOf_from pat [] i = (if pat = [] then int i else - 1)"
| "indexOf_from pat (c # cs) i =
     (if prefix pat (c # cs) then int i else indexOf_from pat cs (Suc i))"

definition indexOf :: "string \<Rightarrow> string \<Rightarrow> int" where
  "indexOf s pat = indexOf_from pat s 0"

text \<open>
  \<^verbatim>\<open>parseInt\<close> on the strings the parser passes to it (the digits a \<^verbatim>\<open>\d+\<close> or \<^verbatim>\<open>\d{3}\<close>
  group captured): the value of the leading decimal digits, \<open>None\<close> for \<^verbatim>\<open>NaN\<close>.
\<close>

definition digit_value :: "char \<Rightarrow> nat" where
  "digit_value c = of_char c - 48"

definition parseInt :: "string \<Rightarrow> nat option" where
  "parseInt s =
     (let ds = takeWhile is_digit s
      in if ds = [] then None else Some (foldl (\<lambda>n c. 10 * n + digit_value c) 0 ds))"

text \<open>Decimal rendering of an integer, as a template literal renders a whole number.\<close>

definition digit_char :: "nat \<Rightarrow> char" where
  "digit_char d = char_of (48 + d)"

fun show_nat :: "nat \<Rightarrow> string" where
  "show_nat n = (if n < 10 then [digit_char n] else show_nat (n div 10) @ [digit_char (n mod 10)])"

definition show_int :: "int \<Rightarrow> string" where
  "show_int i = (if i < 0 then CHR ''-'' # show_nat (nat (- i)) else show_nat (nat i))"

section \<open>The rules text parser\<close>

subsection \<open>The regular expressions, matched at the head of a text\<close>

text \<open>
  Each matcher below is one regular expression of the source tried at one start position:
  it returns the captured groups and the text that follows the match, or \<open>None\<close> when the
  expression does not match there.  The greedy quantifiers \<^verbatim>\<open>\d+\<close>, \<^verbatim>\<open>[a-z]*\<close>, \<^verbatim>\<open>[a-z]+\<close>,
  \<^verbatim>\<open>\s+\<close> and \<^verbatim>\<open>\s*\<close> are each followed by something that cannot match a character of
  their own class, so giving characters back never helps and they take the longest run
  (\<open>takeWhile\<close>).  The lazy \<^verbatim>\<open>[^0-9]*?\<close> is followed by a lookahead that can only hold at a
  digit or at the end of the text, and it cannot step over a digit: it stops at the first
  digit or at the end (\<open>takeWhile non_digit\<close>), and the match fails when the lookahead
  fails there.
\<close>

text \<open>\<^verbatim>\<open>\d{3}\.\d+[a-z]*\<close>: a rule number, with the text after it.\<close>

definition rule_number_at :: "string \<Rightarrow> (string \<times> string) option" where
  "rule_number_at s =
     (case s of
        d1 # d2 # d3 # dot # t \<Rightarrow>
          if is_digit d1 \<and> is_digit d2 \<and> is_digit d3 \<and> dot = CHR ''.''
             \<and> takeWhile is_digit t \<noteq> []
          then Some ([d1, d2, d3, dot] @ takeWhile is_digit t
                       @ takeWhile is_lower (dropWhile is_digit t),
                     dropWhile is_lower (dropWhile is_digit t))
          else None
      | _ \<Rightarrow> None)"

text \<open>The lookahead \<^verbatim>\<open>(?=\d{3}\.\d+[a-z]*\.|$)\<close> of the rule pattern.\<close>

definition rule_ahead :: "string \<Rightarrow> bool" where
  "rule_ahead s =
     (case rule_number_at s of
        Some (num, rest) \<Rightarrow> (case rest of c # cs \<Rightarrow> c = CHR ''.'' | [] \<Rightarrow> False)
      | None \<Rightarrow> s = [])"

text \<open>
  \<^verbatim>\<open>/(\d{3}\.\d+[a-z]*)\.\s+([^0-9]*?)(?=\d{3}\.\d+[a-z]*\.|$)/\<close>: group 1, group 2 and the
  text after the match.
\<close>

definition match_rule :: "string \<Rightarrow> (string \<times> string \<times> string) option" where
  "match_rule s =
     (case rule_number_at s of
        Some (num, rest) \<Rightarrow>
          (case rest of
             c # t \<Rightarrow>
               if c = CHR ''.'' \<and> takeWhile is_space t \<noteq> []
                  \<and> rule_ahead (dropWhile non_digit (dropWhile is_space t))
               then Some (num, takeWhile non_digit (dropWhile is_space t),
                          dropWhile non_digit (dropWhile is_space t))
               else None
           | [] \<Rightarrow> None)
      | None \<Rightarrow> None)"

text \<open>\<^verbatim>\<open>\d{3}\.\<close> and \<^verbatim>\<open>\d{3}\.\d+\<close>, the lookaheads of the chapter and section patterns.\<close>

definition three_digits_dot :: "string \<Rightarrow> bool" where
  "three_digits_dot s =
     (case s of
        d1 # d2 # d3 # dot # t \<Rightarrow> is_digit d1 \<and> is_digit d2 \<and> is_digit d3 \<and> dot = CHR ''.''
      | _ \<Rightarrow> False)"

definition three_digits_dot_digit :: "string \<Rightarrow> bool" where
  "three_digits_dot_digit s =
     (case s of
        d1 # d2 # d3 # dot # d4 # t \<Rightarrow>
          is_digit d1 \<and> is_digit d2 \<and> is_digit d3 \<and> dot = CHR ''.'' \<and> is_digit d4
      | _ \<Rightarrow> False)"

text \<open>
  \<^verbatim>\<open>\.\s+([A-Z][^0-9]*?)\<close> followed by a lookahead \<open>ahead\<close>: the shared tail of the chapter and
  section patterns, giving the title group and the text after the match.
\<close>

definition title_tail :: "(string \<Rightarrow> bool) \<Rightarrow> string \<Rightarrow> (string \<times> string) option" where
  "title_tail ahead s =
     (case s of
        dot # t \<Rightarrow>
          if dot = CHR ''.'' \<and> takeWhile is_space t \<noteq> []
          then (case dropWhile is_space t of
                  u # t' \<Rightarrow>
                    if is_upper u \<and> ahead (dropWhile non_digit t')
                    then Some (u # takeWhile non_digit t', dropWhile non_digit t')
                    else None
                | [] \<Rightarrow> None)
          else None
      | [] \<Rightarrow> None)"

text \<open>\<^verbatim>\<open>/(\d+)\.\s+([A-Z][^0-9]*?)(?=\d{3}\.)/\<close>\<close>

definition match_chapter :: "string \<Rightarrow> (string \<times> string \<times> string) option" where
  "match_chapter s =
     (if takeWhile is_digit s = [] then None
      else (case title_tail three_digits_dot (dropWhile is_digit s) of
              Some (title, rest) \<Rightarrow> Some (takeWhile is_digit s, title, rest)
            | None \<Rightarrow> None))"

text \<open>\<^verbatim>\<open>/(\d{3})\.\s+([A-Z][^0-9]*?)(?=\d{3}\.\d+)/\<close>\<close>

definition match_section :: "string \<Rightarrow> (string \<times> string \<times> string) option" where
  "match_section s =
     (case s of
        d1 # d2 # d3 # t \<Rightarrow>
          if is_digit d1 \<and> is_digit d2 \<and> is_digit d3
          then (case title_tail three_digits_dot_digit t of
                  Some (title, rest) \<Rightarrow> Some ([d1, d2, d3], title, rest)
                | None \<Rightarrow> None)
          else None
      | _ \<Rightarrow> None)"

text \<open>\<^verbatim>\<open>/Example:\s*([^.]*\.)/\<close>: group 1 and the text after the match.\<close>

definition match_example :: "string \<Rightarrow> (string \<times> string) option" where
  "match_example s =
     (if prefix ''Example:'' s
      then (case dropWhile non_dot (dropWhile is_space (drop 8 s)) of
              dot # rest \<Rightarrow>
                Some (takeWhile non_dot (dropWhile is_space (drop 8 s)) @ [dot], rest)
            | [] \<Rightarrow> None)
      else None)"

text \<open>\<^verbatim>\<open>[A-Z][a-z]+\<close>: a capitalised word.\<close>

definition cap_word :: "string \<Rightarrow> (string \<times> string) option" where
  "cap_word s =
     (case s of
        u # t \<Rightarrow>
          if is_upper u \<and> takeWhile is_lower t \<noteq> []
          then Some (u # takeWhile is_lower t, dropWhile is_lower t)
          else None
      | [] \<Rightarrow> None)"

text \<open>\<^verbatim>\<open>\s+[A-Z][a-z]+\<close>: one round of the group of the keyword pattern.\<close>

definition next_word :: "string \<Rightarrow> (string \<times> string) option" where
  "next_word s =
     (if takeWhile is_space s = [] then None
      else (case cap_word (dropWhile is_space s) of
              Some (w, rest) \<Rightarrow> Some (takeWhile is_space s @ w, rest)
            | None \<Rightarrow> None))"

text \<open>\<^verbatim>\<open>\b\<close> right after a word character: the end of the text or a non-word character.\<close>

definition word_end :: "string \<Rightarrow> bool" where
  "word_end s = (case s of [] \<Rightarrow> True | c # cs \<Rightarrow> \<not> is_word c)"

lemma length_dropWhile_less:
  "takeWhile P xs \<noteq> [] \<Longrightarrow> length (dropWhile P xs) < length xs"
  by (induction xs) (auto simp: le_imp_less_Suc length_dropWhile_le split: if_splits)

lemma cap_word_shorter: "cap_word s = Some (w, rest) \<Longrightarrow> length rest < length s"
  by (auto simp: cap_word_def le_imp_less_Suc length_dropWhile_le split: list.splits if_splits)

lemma next_word_shorter: "next_word s = Some (w, rest) \<Longrightarrow> length rest < length s"
proof -
  assume a: "next_word s = Some (w, rest)"
  then obtain w' where c: "cap_word (dropWhile is_space s) = Some (w', rest)"
    by (auto simp: next_word_def split: if_splits option.splits)
  have "length rest < length (dropWhile is_space s)"
    using c by (rule cap_word_shorter)
  also have "\<dots> \<le> length s"
    by (rule length_dropWhile_le)
  finally show ?thesis .
qed

text \<open>
  \<^verbatim>\<open>(?:\s+[A-Z][a-z]+)*\b\<close> after a capitalised word.  The group is greedy: another round is
  tried first, and only when the rest then fails does the match end here, if \<^verbatim>\<open>\b\<close> holds.
\<close>

function phrase_tail :: "string \<Rightarrow> (string \<times> string) option" where
  "phrase_tail s =
     (case next_word s of
        Some (w, rest) \<Rightarrow>
          (case phrase_tail rest of
             Some (m, rest') \<Rightarrow> Some (w @ m, rest')
           | None \<Rightarrow> if word_end s then Some ([], s) else None)
      | None \<Rightarrow> if word_end s then Some ([], s) else None)"
  by pat_completeness auto
termination
  by (relation "measure length") (auto dest: next_word_shorter)

declare phrase_tail.simps [simp del]

text \<open>
  \<^verbatim>\<open>/\b[A-Z][a-z]+(?:\s+[A-Z][a-z]+)*\b/\<close> at a position whose previous character is a word
  character or not (\<open>prev_word\<close>): the match and the text after it.
\<close>

definition match_keyword :: "bool \<Rightarrow> string \<Rightarrow> (string \<times> string) option" where
  "match_keyword prev_word s =
     (if prev_word then None
      else (case cap_word s of
              Some (w, rest) \<Rightarrow>
                (case phrase_tail rest of
                   Some (m, rest') \<Rightarrow> Some (w @ m, rest')
                 | None \<Rightarrow> None)
            | None \<Rightarrow> None))"


lemma rule_number_at_shorter:
  "rule_number_at s = Some (num, rest) \<Longrightarrow> length rest + 5 \<le> length s"
proof -
  assume a: "rule_number_at s = Some (num, rest)"
  then obtain d1 d2 d3 dot t where s: "s = d1 # d2 # d3 # dot # t"
    and t: "takeWhile is_digit t \<noteq> []"
    and r: "rest = dropWhile is_lower (dropWhile is_digit t)"
    by (auto simp: rule_number_at_def split: list.splits if_splits)
  have "length rest \<le> length (dropWhile is_digit t)"
    unfolding r by (rule length_dropWhile_le)
  also have "\<dots> < length t"
    using t by (rule length_dropWhile_less)
  finally show ?thesis using s by simp
qed

lemma match_rule_shorter:
  "match_rule s = Some (num, body, rest) \<Longrightarrow> length rest < length s"
proof -
  assume a: "match_rule s = Some (num, body, rest)"
  then obtain r t where n: "rule_number_at s = Some (num, r)" and r: "r = CHR ''.'' # t"
    and rest: "rest = dropWhile non_digit (dropWhile is_space t)"
    by (auto simp: match_rule_def split: option.splits list.splits if_splits)
  have "length rest \<le> length (dropWhile is_space t)"
    unfolding rest by (rule length_dropWhile_le)
  also have "\<dots> \<le> length t"
    by (rule length_dropWhile_le)
  also have "\<dots> < length r"
    using r by simp
  also have "\<dots> \<le> length s"
    using rule_number_at_shorter [OF n] by simp
  finally show ?thesis .
qed

lemma title_tail_shorter:
  "title_tail ahead s = Some (title, rest) \<Longrightarrow> length rest < length s"
proof -
  assume a: "title_tail ahead s = Some (title, rest)"
  then obtain t u t' where s: "s = CHR ''.'' # t" and u: "dropWhile is_space t = u # t'"
    and rest: "rest = dropWhile non_digit t'"
    by (auto simp: title_tail_def split: list.splits if_splits)
  have "length rest \<le> length t'"
    unfolding rest by (rule length_dropWhile_le)
  also have "\<dots> < length (dropWhile is_space t)"
    using u by simp
  also have "\<dots> \<le> length t"
    by (rule length_dropWhile_le)
  finally show ?thesis using s by simp
qed

lemma match_chapter_shorter:
  "match_chapter s = Some (num, title, rest) \<Longrightarrow> length rest < length s"
proof -
  assume a: "match_chapter s = Some (num, title, rest)"
  then have t: "title_tail three_digits_dot (dropWhile is_digit s) = Some (title, rest)"
    by (auto simp: match_chapter_def split: if_splits option.splits)
  have "length rest < length (dropWhile is_digit s)"
    using t by (rule title_tail_shorter)
  also have "\<dots> \<le> length s"
    by (rule length_dropWhile_le)
  finally show ?thesis .
qed

lemma match_section_shorter:
  "match_section s = Some (num, title, rest) \<Longrightarrow> length rest < length s"
proof -
  assume a: "match_section s = Some (num, title, rest)"
  then obtain d1 d2 d3 t where s: "s = d1 # d2 # d3 # t"
    and t: "title_tail three_digits_dot_digit t = Some (title, rest)"
    by (auto simp: match_section_def split: list.splits if_splits option.splits)
  show ?thesis using title_tail_shorter [OF t] s by simp
qed

lemma match_example_shorter:
  "match_example s = Some (g, rest) \<Longrightarrow> length rest < length s"
proof -
  assume a: "match_example s = Some (g, rest)"
  then obtain dot where d: "dropWhile non_dot (dropWhile is_space (drop 8 s)) = dot # rest"
    by (auto simp: match_example_def split: if_splits list.splits)
  have "length rest < length (dropWhile non_dot (dropWhile is_space (drop 8 s)))"
    using d by simp
  also have "\<dots> \<le> length (dropWhile is_space (drop 8 s))"
    by (rule length_dropWhile_le)
  also have "\<dots> \<le> length (drop 8 s)"
    by (rule length_dropWhile_le)
  also have "\<dots> \<le> length s"
    by simp
  finally show ?thesis .
qed

lemma phrase_tail_shorter:
  "phrase_tail s = Some (m, rest) \<Longrightarrow> length rest \<le> length s"
proof (induction s arbitrary: m rest rule: phrase_tail.induct)
  case (1 s)
  show ?case
  proof (cases "next_word s")
    case None
    with "1.prems" show ?thesis
      by (subst (asm) phrase_tail.simps) (auto split: if_splits)
  next
    case (Some p)
    obtain w r where p: "p = (w, r)" by (cases p)
    have wr: "length r < length s"
      using Some p by (auto dest: next_word_shorter)
    show ?thesis
    proof (cases "phrase_tail r")
      case None
      with "1.prems" Some p show ?thesis
        by (subst (asm) phrase_tail.simps) (auto split: if_splits)
    next
      case (Some q)
      obtain m' r' where q: "q = (m', r')" by (cases q)
      have "length r' \<le> length r"
        using "1.IH" [OF \<open>next_word s = Some p\<close> p [symmetric]] Some q by auto
      moreover have "rest = r'"
        using "1.prems" \<open>next_word s = Some p\<close> p Some q
        by (subst (asm) phrase_tail.simps) auto
      ultimately show ?thesis using wr by simp
    qed
  qed
qed

lemma match_keyword_shorter:
  "match_keyword prev s = Some (m, rest) \<Longrightarrow> length rest < length s"
proof -
  assume a: "match_keyword prev s = Some (m, rest)"
  then obtain w r m' where c: "cap_word s = Some (w, r)" and p: "phrase_tail r = Some (m', rest)"
    by (auto simp: match_keyword_def split: if_splits option.splits)
  have "length rest \<le> length r"
    using p by (rule phrase_tail_shorter)
  also have "\<dots> < length s"
    using c by (rule cap_word_shorter)
  finally show ?thesis .
qed

subsection \<open>createRuleEntry\<close>

text \<open>
  The object \<^verbatim>\<open>createRuleEntry\<close> returns.  The fields \<^verbatim>\<open>text\<close>, \<^verbatim>\<open>keywords\<close>, \<^verbatim>\<open>chapter\<close>,
  \<^verbatim>\<open>section\<close> and \<^verbatim>\<open>subsection\<close> are named \<open>ruleText\<close>, \<open>ruleKeywords\<close>, \<open>ruleChapter\<close>,
  \<open>ruleSection\<close> and \<open>ruleSubsection\<close>.
\<close>

record rule_entry =
  ruleNumber :: string
  ruleText :: string
  examples :: "string list"
  ruleKeywords :: "string list"
  ruleChapter :: string
  ruleSection :: string
  ruleSubsection :: string
  relatedRules :: "string list"

text \<open>
  A global regular expression run to exhaustion (\<^verbatim>\<open>while ((m = re.exec(text)) !== null)\<close>,
  \<^verbatim>\<open>text.match(re)\<close>, \<^verbatim>\<open>text.replace(re, '')\<close>): the expression is tried at the current
  position; where it fails the search moves one character on, where it matches the search
  goes on right after the match.
\<close>

function exampleLoop :: "string \<Rightarrow> string list" where
  "exampleLoop [] = []"
| "exampleLoop (c # cs) =
     (case match_example (c # cs) of
        Some (g, rest) \<Rightarrow> trim g # exampleLoop rest
      | None \<Rightarrow> exampleLoop cs)"
  by pat_completeness auto
termination
  by (relation "measure length") (auto dest: match_example_shorter)

function removeExamples :: "string \<Rightarrow> string" where
  "removeExamples [] = []"
| "removeExamples (c # cs) =
     (case match_example (c # cs) of
        Some (g, rest) \<Rightarrow> removeExamples rest
      | None \<Rightarrow> c # removeExamples cs)"
  by pat_completeness auto
termination
  by (relation "measure length") (auto dest: match_example_shorter)

function keywordLoop :: "bool \<Rightarrow> string \<Rightarrow> string list" where
  "keywordLoop prev_word [] = []"
| "keywordLoop prev_word (c # cs) =
     (case match_keyword prev_word (c # cs) of
        Some (m, rest) \<Rightarrow> m # keywordLoop True rest
      | None \<Rightarrow> keywordLoop (is_word c) cs)"
  by pat_completeness auto
termination
  by (relation "measure (\<lambda>(p, s). length s)") (auto dest: match_keyword_shorter)

definition createRuleEntry :: "string \<Rightarrow> string \<Rightarrow> string \<Rightarrow> string \<Rightarrow> rule_entry" where
  "createRuleEntry number body chapter section' =
     \<lparr> ruleNumber = number,
       ruleText = trim (removeExamples body),
       examples = exampleLoop body,
       ruleKeywords = take 10 (keywordLoop False body),
       ruleChapter = chapter,
       ruleSection = section',
       ruleSubsection = (if CHR ''.'' \<in> set number then split_dot number ! 1 else []),
       relatedRules = [] \<rparr>"

subsection \<open>parseComprehensiveRules\<close>

text \<open>
  The tables \<^verbatim>\<open>chapters\<close> and \<^verbatim>\<open>sections\<close> are objects keyed by the number \<^verbatim>\<open>parseInt\<close>
  returned (\<open>None\<close> is the key \<^verbatim>\<open>NaN\<close>).  The look-ups of the rule loop use keys below 1000,
  where the double \<^verbatim>\<open>parseInt\<close> returns is the exact value.
\<close>

type_synonym titles = "nat option \<Rightarrow> string option"

function chapterLoop :: "string \<Rightarrow> titles \<Rightarrow> titles" where
  "chapterLoop [] chapters = chapters"
| "chapterLoop (c # cs) chapters =
     (case match_chapter (c # cs) of
        Some (num, title, rest) \<Rightarrow> chapterLoop rest (chapters (parseInt num \<mapsto> trim title))
      | None \<Rightarrow> chapterLoop cs chapters)"
  by pat_completeness auto
termination
  by (relation "measure (\<lambda>(s, m). length s)") (auto dest: match_chapter_shorter)

function sectionLoop :: "string \<Rightarrow> titles \<Rightarrow> titles" where
  "sectionLoop [] sections = sections"
| "sectionLoop (c # cs) sections =
     (case match_section (c # cs) of
        Some (num, title, rest) \<Rightarrow> sectionLoop rest (sections (parseInt num \<mapsto> trim title))
      | None \<Rightarrow> sectionLoop cs sections)"
  by pat_completeness auto
termination
  by (relation "measure (\<lambda>(s, m). length s)") (auto dest: match_section_shorter)

text \<open>\<^verbatim>\<open>table[key] || current\<close>: a missing or empty title keeps the current one.\<close>

definition title_or :: "string option \<Rightarrow> string \<Rightarrow> string" where
  "title_or found current = (case found of Some t \<Rightarrow> if t = [] then current else t | None \<Rightarrow> current)"

text \<open>
  The two assignments to \<^verbatim>\<open>currentChapter\<close> and \<^verbatim>\<open>currentSection\<close> for a rule number:
  \<^verbatim>\<open>rulePrefix = parseInt(ruleNumber.split('.')[0])\<close>, \<^verbatim>\<open>chapterNum = Math.floor(rulePrefix / 100)\<close>.
\<close>

definition advance :: "titles \<Rightarrow> titles \<Rightarrow> string \<Rightarrow> string \<times> string \<Rightarrow> string \<times> string" where
  "advance chapters sections number current =
     (let rulePrefix = parseInt (split_dot number ! 0);
          chapterNum = map_option (\<lambda>n. n div 100) rulePrefix
      in (title_or (chapters chapterNum) (fst current),
          title_or (sections rulePrefix) (snd current)))"

function rulesLoop :: "titles \<Rightarrow> titles \<Rightarrow> string \<times> string \<Rightarrow> string \<Rightarrow> rule_entry list" where
  "rulesLoop chapters sections current [] = []"
| "rulesLoop chapters sections current (c # cs) =
     (case match_rule (c # cs) of
        Some (number, body, rest) \<Rightarrow>
          if length (trim body) > 10
          then createRuleEntry number (trim body)
                 (fst (advance chapters sections number current))
                 (snd (advance chapters sections number current))
               # rulesLoop chapters sections (advance chapters sections number current) rest
          else rulesLoop chapters sections current rest
      | None \<Rightarrow> rulesLoop chapters sections current cs)"
  by pat_completeness auto
termination
  by (relation "measure (\<lambda>(ch, se, cur, s). length s)") (auto dest: match_rule_shorter)

definition anchor :: string where
  "anchor = ''1. Game Concepts''"

definition parseComprehensiveRules :: "string \<Rightarrow> rule_entry list" where
  "parseComprehensiveRules rulesText =
     (let startIndex = indexOf rulesText anchor
      in if startIndex = - 1 then []
         else (let cleanText = drop (nat startIndex) rulesText
               in rulesLoop (chapterLoop cleanText Map.empty) (sectionLoop cleanText Map.empty)
                    (''Game Concepts'', []) cleanText))"


section \<open>The database, the file system and the network\<close>

text \<open>
  A thrown \<^verbatim>\<open>Error\<close> and a rejected promise are the value \<open>Inl\<close> of the error's message;
  a normal return is \<open>Inr\<close>.  The state the functions act on is the record \<open>world\<close>: the
  rules table (in the order the database returns its rows), the \<^verbatim>\<open>db_metadata\<close> table by
  id, the files by path, the directories that exist, and a trace of every call issued to
  the database, to the card collaborator and to the network.  What the program does not
  control is the record \<open>env\<close>: the clock, which database call fails, what the card
  collaborator and the HTTP request answer, and which file operation fails.  One
  invocation reads one clock value.
\<close>

type_synonym exn = string

record op_result =
  success :: bool
  message :: string

text \<open>
  A row of the table \<^verbatim>\<open>rules\<close> of \<^verbatim>\<open>shared/schema.ts\<close>, without its serial \<^verbatim>\<open>id\<close> and its
  \<^verbatim>\<open>updatedAt\<close>: the columns under the keys the schema gives them (\<open>row_chapter\<close>,
  \<open>row_section\<close>, \<open>row_subsection\<close>, \<open>row_text\<close>, \<open>row_examples\<close> and \<open>row_keywords\<close> for
  \<^verbatim>\<open>chapter\<close>, \<^verbatim>\<open>section\<close>, \<^verbatim>\<open>subsection\<close>, \<^verbatim>\<open>text\<close>, \<^verbatim>\<open>examples\<close> and \<^verbatim>\<open>keywords\<close>), \<open>None\<close> for
  \<^verbatim>\<open>NULL\<close>.  The columns \<^verbatim>\<open>rule_number\<close> and \<^verbatim>\<open>text\<close> are declared \<^verbatim>\<open>notNull()\<close>.
\<close>

record rule_row =
  row_chapter :: "string option"
  row_section :: "string option"
  row_subsection :: "string option"
  rule_number :: "string option"
  row_text :: "string option"
  row_examples :: "string list option"
  row_keywords :: "string list option"
  related_rules :: "string list option"
  createdAt :: "int option"

record metadata_row =
  last_updated :: "int option"
  total_cards :: "int option"
  description :: "string option"

datatype event =
    SelectMetadata
  | SelectRules
  | DeleteRules
  | InsertRules "rule_entry list"
  | UpsertMetadata metadata_row
  | CountCards
  | CardRefresh
  | HttpGet string

record world =
  rules_table :: "rule_row list"
  db_metadata :: "string \<Rightarrow> metadata_row option"
  files :: "string \<Rightarrow> string option"
  dir_exists :: "string \<Rightarrow> bool"
  trace :: "event list"

datatype http_outcome = NetworkError exn | Response nat string

datatype exec_result = NotAnArray | Rows "int list"

record env =
  now :: int
  db_fault :: "event list \<Rightarrow> exn option"
  card_refresh :: "exn + op_result"
  count_result :: exec_result
  http :: http_outcome
  mkdir_fault :: "exn option"
  stream_fault :: "exn option"
  unlink_fault :: "exn option"

text \<open>
  A call to the database is recorded in the trace; it throws when \<open>db_fault\<close> says so for
  the trace so far, and otherwise acts on the tables.
\<close>

definition db_call :: "env \<Rightarrow> event \<Rightarrow> world \<Rightarrow> 'a \<Rightarrow> (world \<Rightarrow> world) \<Rightarrow> (exn + 'a) \<times> world" where
  "db_call e ev w result change =
     (case db_fault e (trace w) of
        Some err \<Rightarrow> (Inl err, w\<lparr>trace := trace w @ [ev]\<rparr>)
      | None \<Rightarrow> (Inr result, change (w\<lparr>trace := trace w @ [ev]\<rparr>)))"

text \<open>\<^verbatim>\<open>db.select().from(dbMetadata).where(eq(dbMetadata.id, "card_database"))\<close>, first row.\<close>

definition select_metadata :: "env \<Rightarrow> world \<Rightarrow> (exn + metadata_row option) \<times> world" where
  "select_metadata e w = db_call e SelectMetadata w (db_metadata w ''card_database'') id"

text \<open>\<^verbatim>\<open>db.select().from(rules).limit(1)\<close>: no ordering is asked for.\<close>

definition select_rules_limit1 :: "env \<Rightarrow> world \<Rightarrow> (exn + rule_row list) \<times> world" where
  "select_rules_limit1 e w = db_call e SelectRules w (take 1 (rules_table w)) id"

text \<open>\<^verbatim>\<open>db.delete(rules)\<close>\<close>

definition delete_rules :: "env \<Rightarrow> world \<Rightarrow> (exn + unit) \<times> world" where
  "delete_rules e w = db_call e DeleteRules w () (\<lambda>w'. w'\<lparr>rules_table := []\<rparr>)"

text \<open>
  The row that \<^verbatim>\<open>db.insert(rules).values(batch)\<close> sends for one object of the batch.  A
  column takes the value the object holds under the column's key in the schema, and its
  default when the object has no such key.  The objects of \<^verbatim>\<open>createRuleEntry\<close> have the keys
  \<^verbatim>\<open>chapter\<close>, \<^verbatim>\<open>section\<close>, \<^verbatim>\<open>subsection\<close>, \<^verbatim>\<open>text\<close>, \<^verbatim>\<open>examples\<close> and \<^verbatim>\<open>keywords\<close> of the schema;
  they hold the rule number under \<^verbatim>\<open>ruleNumber\<close> and the related rules under
  \<^verbatim>\<open>relatedRules\<close>, where the schema has \<^verbatim>\<open>rule_number\<close> and \<^verbatim>\<open>related_rules\<close>, so these two
  columns get their default, which is \<^verbatim>\<open>NULL\<close>.  \<^verbatim>\<open>created_at\<close> defaults to the current time.
\<close>

definition row_of :: "env \<Rightarrow> rule_entry \<Rightarrow> rule_row" where
  "row_of e r =
     \<lparr> row_chapter = Some (ruleChapter r),
       row_section = Some (ruleSection r),
       row_subsection = Some (ruleSubsection r),
       rule_number = None,
       row_text = Some (ruleText r),
       row_examples = Some (examples r),
       row_keywords = Some (ruleKeywords r),
       related_rules = None,
       createdAt = Some (now e) \<rparr>"

text \<open>The \<^verbatim>\<open>NOT NULL\<close> constraints of the table, and the error of a row that breaks them.\<close>

definition not_null :: "rule_row \<Rightarrow> bool" where
  "not_null r = (rule_number r \<noteq> None \<and> row_text r \<noteq> None)"

definition not_null_violation :: exn where
  "not_null_violation = ''null value in a column of relation rules violates not-null constraint''"

text \<open>
  \<^verbatim>\<open>db.insert(rules).values(batch)\<close>: one statement.  The database rejects it, and stores no
  row of it, when a row breaks a constraint.
\<close>

definition insert_rules :: "env \<Rightarrow> rule_entry list \<Rightarrow> world \<Rightarrow> (exn + unit) \<times> world" where
  "insert_rules e batch w =
     (if list_all not_null (map (row_of e) batch)
      then db_call e (InsertRules batch) w ()
             (\<lambda>w'. w'\<lparr>rules_table := rules_table w' @ map (row_of e) batch\<rparr>)
      else (case db_call e (InsertRules batch) w () id of
              (Inl err, w') \<Rightarrow> (Inl err, w')
            | (Inr u, w') \<Rightarrow> (Inl not_null_violation, w')))"

text \<open>
  \<^verbatim>\<open>db.insert(dbMetadata).values(v).onConflictDoUpdate({target: dbMetadata.id, set: u})\<close>:
  the row \<open>v\<close> is inserted, or the fields of \<open>u\<close> replace those of the row that exists.
\<close>

definition upsert_metadata :: "env \<Rightarrow> metadata_row \<Rightarrow> metadata_row \<Rightarrow> world \<Rightarrow> (exn + unit) \<times> world" where
  "upsert_metadata e v u w =
     db_call e (UpsertMetadata (if db_metadata w ''card_database'' = None then v else u)) w ()
       (\<lambda>w'. w'\<lparr>db_metadata := (db_metadata w')
                 (''card_database'' \<mapsto> (if db_metadata w ''card_database'' = None then v else u))\<rparr>)"

text \<open>\<^verbatim>\<open>db.execute(sql`SELECT COUNT(*) as count FROM cards`)\<close>\<close>

definition count_cards :: "env \<Rightarrow> world \<Rightarrow> (exn + exec_result) \<times> world" where
  "count_cards e w = db_call e CountCards w (count_result e) id"

text \<open>\<^verbatim>\<open>fs.readFileSync(filePath, 'utf-8')\<close>\<close>

definition readFileSync :: "world \<Rightarrow> string \<Rightarrow> exn + string" where
  "readFileSync w path =
     (case files w path of
        Some content' \<Rightarrow> Inr content'
      | None \<Rightarrow> Inl (''ENOENT: no such file or directory, open '' @ [CHR 0x27] @ path @ [CHR 0x27]))"

section \<open>The rules ingestion\<close>

definition batchSize :: nat where
  "batchSize = 100"

text \<open>\<^verbatim>\<open>xs.slice(i, j)\<close> for \<open>i \<le> j\<close>.\<close>

definition slice :: "nat \<Rightarrow> nat \<Rightarrow> 'a list \<Rightarrow> 'a list" where
  "slice i j xs = take (j - i) (drop i xs)"

text \<open>
  The loop \<^verbatim>\<open>for (let i = 0; i < parsedRules.length; i += batchSize)\<close> of
  \<^verbatim>\<open>updateRulesDatabase\<close>, from index \<open>i\<close> on; a rejected insert ends it.
\<close>

function insertBatches :: "env \<Rightarrow> nat \<Rightarrow> rule_entry list \<Rightarrow> world \<Rightarrow> (exn + unit) \<times> world" where
  "insertBatches e i parsedRules w =
     (if i < length parsedRules
      then (case insert_rules e (slice i (i + batchSize) parsedRules) w of
              (Inl err, w') \<Rightarrow> (Inl err, w')
            | (Inr u, w') \<Rightarrow> insertBatches e (i + batchSize) parsedRules w')
      else (Inr (), w))"
  by pat_completeness auto
termination
  by (relation "measure (\<lambda>(e, i, parsedRules, w). length parsedRules - i)")
    (auto simp: batchSize_def)

declare insertBatches.simps [simp del]

text \<open>\<^verbatim>\<open>updateRulesDatabase(filePath)\<close>: the \<^verbatim>\<open>catch\<close> block rethrows the error it caught.\<close>

definition updateRulesDatabase :: "env \<Rightarrow> string \<Rightarrow> world \<Rightarrow> (exn + unit) \<times> world" where
  "updateRulesDatabase e filePath w =
     (case readFileSync w filePath of
        Inl err \<Rightarrow> (Inl err, w)
      | Inr rulesText \<Rightarrow>
          (case delete_rules e w of
             (Inl err, w1) \<Rightarrow> (Inl err, w1)
           | (Inr u, w1) \<Rightarrow> insertBatches e 0 (parseComprehensiveRules rulesText) w1))"

definition localRulesPath :: string where
  "localRulesPath = ''./attached_assets/MagicCompRules.txt''"

definition updateRulesFromFile :: "env \<Rightarrow> world \<Rightarrow> (exn + unit) \<times> world" where
  "updateRulesFromFile e w =
     (if files w localRulesPath = None then (Inl ''Comprehensive rules file not found'', w)
      else updateRulesDatabase e localRulesPath w)"

definition rulesUrl :: string where
  "rulesUrl = ''https://media.wizards.com/2025/downloads/MagicCompRules%2020250404.txt''"

definition tempDir :: string where
  "tempDir = ''./temp''"

text \<open>\<^verbatim>\<open>path.join(tempDir, 'MagicCompRules_latest.txt')\<close>\<close>

definition tempFilePath :: string where
  "tempFilePath = ''temp/MagicCompRules_latest.txt''"

text \<open>
  The age in days of a rule row, \<^verbatim>\<open>lastUpdate ? (Date.now() - lastUpdate.getTime()) /
  (1000 * 60 * 60 * 24) : 30\<close>.  The two times are whole milliseconds below \<open>2^53\<close>, so the
  double the division returns compares with 7 and rounds as the exact quotient does; the
  model computes with the exact quotient.  \<^verbatim>\<open>Math.round(x)\<close> is \<open>\<lfloor>x + 1/2\<rfloor>\<close>.
\<close>

definition daysSinceUpdate :: "int \<Rightarrow> rule_row \<Rightarrow> rat" where
  "daysSinceUpdate t row =
     (case createdAt row of
        Some lastUpdate \<Rightarrow> of_int (t - lastUpdate) / (1000 * 60 * 60 * 24)
      | None \<Rightarrow> 30)"

definition math_round :: "rat \<Rightarrow> int" where
  "math_round x = \<lfloor>x + 1 / 2\<rfloor>"

text \<open>
  The promise \<^verbatim>\<open>updateRulesFromWotc\<close> returns for the download: \<^verbatim>\<open>fs.createWriteStream\<close>
  creates the temporary file, \<^verbatim>\<open>https.get\<close> answers with an error or a response, and each
  \<^verbatim>\<open>reject\<close> and \<^verbatim>\<open>resolve\<close> of the source is a branch here.
\<close>

definition downloadRules :: "env \<Rightarrow> world \<Rightarrow> (exn + op_result) \<times> world" where
  "downloadRules e w =
     (let w1 = w\<lparr>files := (files w)(tempFilePath \<mapsto> []), trace := trace w @ [HttpGet rulesUrl]\<rparr>
      in case http e of
           NetworkError err \<Rightarrow> (Inl (''Network error downloading rules: '' @ err), w1)
         | Response statusCode body \<Rightarrow>
             if statusCode = 200
             then (case stream_fault e of
                     Some err \<Rightarrow>
                       (Inl (''Failed to save rules file: '' @ err),
                        w1\<lparr>files := (files w1)(tempFilePath := None)\<rparr>)
                   | None \<Rightarrow>
                       (case updateRulesDatabase e tempFilePath
                               (w1\<lparr>files := (files w1)(tempFilePath \<mapsto> body)\<rparr>) of
                          (Inl err, w2) \<Rightarrow> (Inl (''Failed to process downloaded rules: '' @ err), w2)
                        | (Inr u, w2) \<Rightarrow>
                            (case unlink_fault e of
                               Some err \<Rightarrow>
                                 (Inl (''Failed to process downloaded rules: '' @ err), w2)
                             | None \<Rightarrow>
                                 (Inr \<lparr> success = True,
                                        message = ''Comprehensive rules updated successfully from official source'' \<rparr>,
                                  w2\<lparr>files := (files w2)(tempFilePath := None)\<rparr>))))
             else (Inl (''Failed to download rules. HTTP status: '' @ show_nat statusCode), w1))"

text \<open>
  The \<^verbatim>\<open>try\<close> block of \<^verbatim>\<open>updateRulesFromWotc\<close>.  \<open>Inl\<close> is an error thrown inside the block,
  which its \<^verbatim>\<open>catch\<close> receives.  \<open>Inr p\<close> is a \<^verbatim>\<open>return\<close>: of the skip result, or of the
  download promise \<open>p\<close>, which the block returns without awaiting it, so that its rejection
  is the rejection of \<^verbatim>\<open>updateRulesFromWotc\<close> itself.  \<open>downloadLatest\<close> is the part from the
  creation of the temporary directory on.
\<close>

definition downloadLatest :: "env \<Rightarrow> world \<Rightarrow> (exn + (exn + op_result)) \<times> world" where
  "downloadLatest e w =
     (if dir_exists w tempDir
      then (case downloadRules e w of (p, w') \<Rightarrow> (Inr p, w'))
      else (case mkdir_fault e of
              Some err \<Rightarrow> (Inl err, w)
            | None \<Rightarrow>
                (case downloadRules e (w\<lparr>dir_exists := (dir_exists w)(tempDir := True)\<rparr>) of
                   (p, w') \<Rightarrow> (Inr p, w'))))"

definition wotcTry :: "env \<Rightarrow> world \<Rightarrow> (exn + (exn + op_result)) \<times> world" where
  "wotcTry e w =
     (case select_rules_limit1 e w of
        (Inl err, w1) \<Rightarrow> (Inl err, w1)
      | (Inr existingRules, w1) \<Rightarrow>
          (case existingRules of
             row # rows \<Rightarrow>
               if daysSinceUpdate (now e) row < 7
               then (Inr (Inr \<lparr> success = True,
                                message = ''Rules were updated ''
                                  @ show_int (math_round (daysSinceUpdate (now e) row))
                                  @ '' days ago. Skipping update.'' \<rparr>), w1)
               else downloadLatest e w1
           | [] \<Rightarrow> downloadLatest e w1))"

text \<open>The \<^verbatim>\<open>catch\<close> block of \<^verbatim>\<open>updateRulesFromWotc\<close>: the fallback to the local file.\<close>

definition wotcCatch :: "env \<Rightarrow> exn \<Rightarrow> world \<Rightarrow> (exn + op_result) \<times> world" where
  "wotcCatch e error w =
     (case updateRulesFromFile e w of
        (Inr u, w') \<Rightarrow>
          (Inr \<lparr> success = True, message = ''Used local comprehensive rules file as fallback'' \<rparr>, w')
      | (Inl fallbackError, w') \<Rightarrow>
          (Inr \<lparr> success = False,
                 message = ''Failed to update rules: '' @ error
                   @ ''. Fallback also failed: '' @ fallbackError \<rparr>, w'))"

definition updateRulesFromWotc :: "env \<Rightarrow> world \<Rightarrow> (exn + op_result) \<times> world" where
  "updateRulesFromWotc e w =
     (case wotcTry e w of
        (Inl error, w1) \<Rightarrow> wotcCatch e error w1
      | (Inr p, w1) \<Rightarrow> (p, w1))"


section \<open>The card database refresh\<close>

text \<open>
  What \<^verbatim>\<open>updateCardDatabase\<close> returns: \<^verbatim>\<open>success\<close> and \<^verbatim>\<open>message\<close>, and, on the paths that
  set them, \<^verbatim>\<open>last_updated\<close> (here \<open>reported_last_updated\<close>), \<^verbatim>\<open>cardResult\<close> and
  \<^verbatim>\<open>rulesResult\<close>.
\<close>

record update_result = op_result +
  reported_last_updated :: "int option"
  cardResult :: "op_result option"
  rulesResult :: "op_result option"

text \<open>
  \<^verbatim>\<open>getCardCount\<close>: the count of the first row when the result is a non-empty array, and 0
  otherwise, also when the query throws.  A row holds the number \<^verbatim>\<open>parseInt\<close> reads from
  its \<^verbatim>\<open>count\<close>.
\<close>

definition getCardCount :: "env \<Rightarrow> world \<Rightarrow> int \<times> world" where
  "getCardCount e w =
     (case count_cards e w of
        (Inl err, w') \<Rightarrow> (0, w')
      | (Inr NotAnArray, w') \<Rightarrow> (0, w')
      | (Inr (Rows rs), w') \<Rightarrow> (case rs of c # cs \<Rightarrow> (c, w') | [] \<Rightarrow> (0, w')))"

text \<open>
  The staleness gate: the row exists, has a \<^verbatim>\<open>last_updated\<close>, and
  \<^verbatim>\<open>(Date.now() - lastUpdateTime.getTime()) / (1000 * 60 * 60) < 24\<close>.
\<close>

definition upToDate :: "int \<Rightarrow> metadata_row option \<Rightarrow> int option" where
  "upToDate t lastUpdate =
     (case lastUpdate of
        Some row \<Rightarrow>
          (case last_updated row of
             Some lu \<Rightarrow> if (of_int (t - lu) / (1000 * 60 * 60) :: rat) < 24 then Some lu else None
           | None \<Rightarrow> None)
      | None \<Rightarrow> None)"

definition combined :: "op_result \<Rightarrow> op_result \<Rightarrow> update_result" where
  "combined c r =
     \<lparr> success = success c \<and> success r,
       message = ''Cards: '' @ message c @ ''. Rules: '' @ message r,
       reported_last_updated = None, cardResult = Some c, rulesResult = Some r \<rparr>"

text \<open>The metadata write of \<^verbatim>\<open>updateCardDatabase\<close>, with its two calls of \<^verbatim>\<open>getCardCount\<close>.\<close>

definition writeMetadata :: "env \<Rightarrow> op_result \<Rightarrow> op_result \<Rightarrow> world \<Rightarrow> (exn + unit) \<times> world" where
  "writeMetadata e c r w =
     (case getCardCount e w of
        (n1, w1) \<Rightarrow>
          (case getCardCount e w1 of
             (n2, w2) \<Rightarrow>
               upsert_metadata e
                 \<lparr> last_updated = Some (now e), total_cards = Some n1,
                   description = Some (message c @ ''. '' @ message r) \<rparr>
                 \<lparr> last_updated = Some (now e), total_cards = Some n2,
                   description = Some (message c @ ''. '' @ message r) \<rparr>
                 w2))"

text \<open>
  The call of \<^verbatim>\<open>updateRulesFromWotc\<close> is awaited inside a \<^verbatim>\<open>try\<close> of its own, whose \<^verbatim>\<open>catch\<close>
  turns a rejection into a failed \<^verbatim>\<open>rulesResult\<close>.
\<close>

definition awaitRules :: "exn + op_result \<Rightarrow> op_result" where
  "awaitRules p =
     (case p of
        Inr res \<Rightarrow> res
      | Inl err \<Rightarrow> \<lparr> success = False, message = ''Rules update failed: '' @ err \<rparr>)"

text \<open>The \<^verbatim>\<open>try\<close> block of \<^verbatim>\<open>updateCardDatabase\<close>.\<close>

definition cardTry :: "env \<Rightarrow> world \<Rightarrow> (exn + update_result) \<times> world" where
  "cardTry e w =
     (case select_metadata e w of
        (Inl err, w1) \<Rightarrow> (Inl err, w1)
      | (Inr lastUpdate, w1) \<Rightarrow>
          (case upToDate (now e) lastUpdate of
             Some lu \<Rightarrow>
               (Inr \<lparr> success = True, message = ''Database is up to date'',
                      reported_last_updated = Some lu, cardResult = None, rulesResult = None \<rparr>, w1)
           | None \<Rightarrow>
               (case card_refresh e of
                  Inl err \<Rightarrow> (Inl err, w1\<lparr>trace := trace w1 @ [CardRefresh]\<rparr>)
                | Inr c \<Rightarrow>
                    (case updateRulesFromWotc e (w1\<lparr>trace := trace w1 @ [CardRefresh]\<rparr>) of
                       (p, w2) \<Rightarrow>
                         if success c
                         then (case writeMetadata e c (awaitRules p) w2 of
                                 (Inl err, w3) \<Rightarrow> (Inl err, w3)
                               | (Inr u, w3) \<Rightarrow> (Inr (combined c (awaitRules p)), w3))
                         else (Inr (combined c (awaitRules p)), w2)))))"

definition updateCardDatabase :: "env \<Rightarrow> world \<Rightarrow> (exn + update_result) \<times> world" where
  "updateCardDatabase e w =
     (case cardTry e w of
        (Inl error, w') \<Rightarrow>
          (Inr \<lparr> success = False, message = ''Error updating database: '' @ error,
                 reported_last_updated = None, cardResult = None, rulesResult = None \<rparr>, w')
      | (Inr result, w') \<Rightarrow> (Inr result, w'))"

section \<open>The conversation history of the rulings endpoint\<close>








section \<open>Predicates and sample values of the statements\<close>

text \<open>
  The pattern of the rule numbers the parser captures, \<^verbatim>\<open>\d{3}\.\d+[a-z]*\<close>, as a predicate on
  the whole string.
\<close>

definition rule_number_code_pattern :: "string \<Rightarrow> bool" where
  "rule_number_code_pattern s =
     (case s of
        d1 # d2 # d3 # dot # t \<Rightarrow>
          is_digit d1 \<and> is_digit d2 \<and> is_digit d3 \<and> dot = CHR ''.''
          \<and> takeWhile is_digit t \<noteq> [] \<and> list_all is_lower (dropWhile is_digit t)
      | _ \<Rightarrow> False)"

text \<open>
  The pattern the specification gives for a rule number, \<^verbatim>\<open>\d{3}\.\d+[a-z]?\<close>: three digits,
  a dot, one or more digits, at most one lower-case letter.
\<close>

definition rule_number_spec_pattern :: "string \<Rightarrow> bool" where
  "rule_number_spec_pattern s =
     (case s of
        d1 # d2 # d3 # dot # t \<Rightarrow>
          is_digit d1 \<and> is_digit d2 \<and> is_digit d3 \<and> dot = CHR ''.''
          \<and> takeWhile is_digit t \<noteq> [] \<and> list_all is_lower (dropWhile is_digit t)
          \<and> length (dropWhile is_digit t) \<le> 1
      | _ \<Rightarrow> False)"


text \<open>
  Some \<^verbatim>\<open>Example:\<close> marker of the text has no period after it, so that a match of the
  example pattern that starts there would run on into whatever text follows.
\<close>

fun open_example :: "string \<Rightarrow> bool" where
  "open_example [] = False"
| "open_example (c # cs) = ((prefix ''Example:'' (c # cs) \<and> CHR ''.'' \<notin> set cs) \<or> open_example cs)"

text \<open>
  Sample values: an environment in which no database call fails and the network is down,
  ten days after the epoch; an empty world; a rule record; a row of the rules table with
  its rule number, created at the epoch; a history of ten messages; a card store without
  cards; a language model that answers and one that fails.
\<close>

definition base_env :: env where
  "base_env =
     \<lparr> now = 864000000, db_fault = (\<lambda>t. None),
       card_refresh = Inr \<lparr> success = True, message = ''Cards updated'' \<rparr>,
       count_result = Rows [3], http = NetworkError ''offline'',
       mkdir_fault = None, stream_fault = None, unlink_fault = None \<rparr>"

definition base_world :: world where
  "base_world =
     \<lparr> rules_table = [], db_metadata = (\<lambda>i. None), files = (\<lambda>p. None),
       dir_exists = (\<lambda>d. False), trace = [] \<rparr>"

definition sample_rule :: rule_entry where
  "sample_rule = createRuleEntry ''100.1'' ''These are the rules.'' ''Game Concepts'' ''General''"

definition sample_row :: rule_row where
  "sample_row =
     \<lparr> row_chapter = Some ''Game Concepts'', row_section = Some ''General'',
       row_subsection = Some ''1'', rule_number = Some ''100.1'',
       row_text = Some ''These are the rules.'', row_examples = Some [],
       row_keywords = Some [''These''], related_rules = Some [], createdAt = Some 0 \<rparr>"





section \<open>Properties of the parser\<close>

subsection \<open>Runs of characters\<close>

lemma takeWhile_stop: "ys = [] \<or> \<not> P (hd ys) \<Longrightarrow> takeWhile P ys = []"
  by (cases ys) auto

lemma dropWhile_stop: "ys = [] \<or> \<not> P (hd ys) \<Longrightarrow> dropWhile P ys = ys"
  by (cases ys) auto

lemma takeWhile_run:
  "list_all P xs \<Longrightarrow> ys = [] \<or> \<not> P (hd ys) \<Longrightarrow> takeWhile P (xs @ ys) = xs"
  by (induction xs) (simp_all add: takeWhile_stop)

lemma dropWhile_run:
  "list_all P xs \<Longrightarrow> ys = [] \<or> \<not> P (hd ys) \<Longrightarrow> dropWhile P (xs @ ys) = ys"
  by (induction xs) (simp_all add: dropWhile_stop)

lemma list_all_takeWhile: "list_all P (takeWhile P xs)"
  by (induction xs) auto

lemma list_all_dropWhile: "list_all Q xs \<Longrightarrow> list_all Q (dropWhile P xs)"
  by (induction xs) auto

lemma takeWhile_nonempty: "takeWhile P t \<noteq> [] \<longleftrightarrow> t \<noteq> [] \<and> P (hd t)"
  by (cases t) auto


lemma dropWhile_before_stop:
  "ys = [] \<or> \<not> P (hd ys) \<Longrightarrow> dropWhile P (xs @ ys) = dropWhile P xs @ ys"
  by (induction xs) (simp_all add: dropWhile_stop)

lemma dropWhile_append_nonempty:
  "dropWhile P xs \<noteq> [] \<Longrightarrow> dropWhile P (xs @ ys) = dropWhile P xs @ ys"
  by (induction xs) auto

lemma takeWhile_append_nonempty:
  "dropWhile P xs \<noteq> [] \<Longrightarrow> takeWhile P (xs @ ys) = takeWhile P xs"
  by (induction xs) auto

lemma not_lower_digit: "is_lower c \<Longrightarrow> \<not> is_digit c"
  by (auto simp: is_lower_def is_digit_def)




subsection \<open>Reads that stay in range\<close>

text \<open>
  \<^verbatim>\<open>split('.')\<close> never returns the empty array, and it returns at least two pieces when the
  string holds a dot: the reads \<^verbatim>\<open>split('.')[0]\<close> and \<^verbatim>\<open>split('.')[1]\<close> of the source are
  in range where the model makes them.
\<close>

lemma split_dot_pieces: "length (split_dot s) = Suc (length (filter (\<lambda>c. c = CHR ''.'') s))"
  by (induction s) (auto split: list.splits)

lemma split_dot_first: "0 < length (split_dot s)"
  by (simp add: split_dot_pieces)

lemma split_dot_second: "CHR ''.'' \<in> set s \<Longrightarrow> 1 < length (split_dot s)"
proof -
  assume "CHR ''.'' \<in> set s"
  then have "filter (\<lambda>c. c = CHR ''.'') s \<noteq> []"
    by (auto simp: filter_empty_conv)
  then show ?thesis by (simp add: split_dot_pieces)
qed

subsection \<open>The anchor\<close>

lemma indexOf_from_absent: "\<not> sublist pat s \<Longrightarrow> indexOf_from pat s i = - 1"
  by (induction s arbitrary: i) (auto simp: sublist_Cons_right)

lemma indexOf_from_found:
  "indexOf_from pat s i = int k \<Longrightarrow> i \<le> k \<and> prefix pat (drop (k - i) s)"
proof (induction s arbitrary: i)
  case Nil
  then show ?case by (auto split: if_splits)
next
  case (Cons c cs)
  show ?case
  proof (cases "prefix pat (c # cs)")
    case True
    with Cons.prems show ?thesis by simp
  next
    case False
    with Cons.prems have "indexOf_from pat cs (Suc i) = int k" by simp
    from Cons.IH [OF this] have "Suc i \<le> k" and "prefix pat (drop (k - Suc i) cs)" by auto
    then show ?thesis by (simp add: Suc_diff_le drop_Cons')
  qed
qed

text \<open>
  Claim C8.  For every input text that does not contain the anchor string
  \<^verbatim>\<open>1. Game Concepts\<close>, the parser returns the empty sequence of rule records.  The parser is
  a total function to lists of records: it has no error result.
\<close>

theorem parse_without_anchor:
  "\<not> sublist anchor rulesText \<Longrightarrow> parseComprehensiveRules rulesText = []"
  by (simp add: parseComprehensiveRules_def indexOf_def indexOf_from_absent)

text \<open>The theorem at a text that holds a rule but not the anchor.\<close>

theorem parse_without_anchor_witness:
  "parseComprehensiveRules ''100. General 100.1. These are the rules of the game.'' = []"
  using parse_without_anchor [of "''100. General 100.1. These are the rules of the game.''"]
  by (simp add: anchor_def sublist_code)

subsection \<open>Rule numbers\<close>

lemma rule_number_at_pattern:
  "rule_number_at s = Some (num, rest) \<Longrightarrow> rule_number_code_pattern num"
proof -
  assume a: "rule_number_at s = Some (num, rest)"
  then obtain d1 d2 d3 t where s: "s = d1 # d2 # d3 # CHR ''.'' # t"
    and d: "is_digit d1" "is_digit d2" "is_digit d3" and t: "takeWhile is_digit t \<noteq> []"
    and n: "num = [d1, d2, d3, CHR ''.''] @ takeWhile is_digit t @ takeWhile is_lower (dropWhile is_digit t)"
    by (auto simp: rule_number_at_def split: list.splits if_splits)
  let ?ds = "takeWhile is_digit t" and ?ls = "takeWhile is_lower (dropWhile is_digit t)"
  have ls: "list_all is_lower ?ls" by (rule list_all_takeWhile)
  have nd: "?ls = [] \<or> \<not> is_digit (hd ?ls)"
    using ls by (cases ?ls) (auto simp: not_lower_digit)
  have 1: "takeWhile is_digit (?ds @ ?ls) = ?ds"
    using list_all_takeWhile nd by (rule takeWhile_run)
  have 2: "dropWhile is_digit (?ds @ ?ls) = ?ls"
    using list_all_takeWhile nd by (rule dropWhile_run)
  show ?thesis
    unfolding n rule_number_code_pattern_def using d t ls 1 2 by simp
qed

lemma match_rule_pattern:
  "match_rule s = Some (num, body, rest) \<Longrightarrow> rule_number_code_pattern num"
  by (auto simp: match_rule_def split: option.splits list.splits if_splits dest: rule_number_at_pattern)

lemma rulesLoop_pattern:
  "list_all (\<lambda>r. rule_number_code_pattern (ruleNumber r)) (rulesLoop ch se cur s)"
proof (induction ch se cur s rule: rulesLoop.induct)
  case (1 ch se cur)
  show ?case by simp
next
  case (2 ch se cur c cs)
  show ?case
  proof (cases "match_rule (c # cs)")
    case None
    with 2 show ?thesis by simp
  next
    case (Some m)
    obtain num body rest where m: "m = (num, body, rest)" by (cases m)
    have p: "rule_number_code_pattern num"
      using Some m by (auto dest: match_rule_pattern)
    show ?thesis
      using 2 Some m p by (auto simp: createRuleEntry_def)
  qed
qed























lemma parse_code_pattern:
  "list_all (\<lambda>r. rule_number_code_pattern (ruleNumber r)) (parseComprehensiveRules rulesText)"
  by (simp add: parseComprehensiveRules_def Let_def rulesLoop_pattern)




text \<open>The pattern of the specification is the pattern of the source with at most one letter.\<close>

lemma spec_pattern_code_pattern:
  "rule_number_spec_pattern s
     \<longleftrightarrow> rule_number_code_pattern s \<and> length (dropWhile is_digit (drop 4 s)) \<le> 1"
  by (auto simp: rule_number_spec_pattern_def rule_number_code_pattern_def split: list.splits)

text \<open>
  The end-to-end example of the specification: two records, 100.1 with the text
  \<^verbatim>\<open>These are the rules.\<close> and one example, and 100.2 with its text and no example.
\<close>

lemma parse_specification_example:
  "map (\<lambda>r. (ruleNumber r, ruleText r, examples r))
     (parseComprehensiveRules
        (''... 1. Game Concepts'' @ [CHR 0x0A] @ ''100. General'' @ [CHR 0x0A]
         @ ''100.1. These are the rules. Example: A player draws a card.'' @ [CHR 0x0A]
         @ ''100.2. Something else happens here too today.''))
   = [(''100.1'', ''These are the rules.'', [''A player draws a card.'']),
      (''100.2'', ''Something else happens here too today.'', [])]"
  by code_simp

subsection \<open>Examples\<close>

lemma open_example_suffix: "suffix r s \<Longrightarrow> open_example r \<Longrightarrow> open_example s"
proof (induction s)
  case Nil
  then show ?case by simp
next
  case (Cons c cs)
  show ?case
  proof (cases "r = c # cs")
    case True
    with Cons.prems show ?thesis by simp
  next
    case False
    with Cons.prems have "suffix r cs" by (simp add: suffix_Cons)
    with Cons show ?thesis by simp
  qed
qed

lemma match_example_rest_suffix: "match_example s = Some (g, rest) \<Longrightarrow> suffix rest s"
proof -
  assume "match_example s = Some (g, rest)"
  then obtain dot where d: "dropWhile non_dot (dropWhile is_space (drop 8 s)) = dot # rest"
    by (auto simp: match_example_def split: if_splits list.splits)
  have "suffix rest (dot # rest)" by (simp add: suffix_ConsI)
  also have "suffix (dot # rest) (dropWhile is_space (drop 8 s))"
    unfolding d [symmetric] by (rule suffix_dropWhile)
  also have "suffix \<dots> (drop 8 s)" by (rule suffix_dropWhile)
  also have "suffix \<dots> s" by (rule suffix_drop)
  finally show ?thesis .
qed

lemma match_example_append:
  assumes m: "match_example s = Some (g, rest)"
  shows "match_example (s @ x) = Some (g, rest @ x)"
proof -
  from m have p: "prefix ''Example:'' s"
    by (auto simp: match_example_def split: if_splits)
  then have l: "8 \<le> length s" by (auto simp: prefix_def)
  from m obtain dot where d: "dropWhile non_dot (dropWhile is_space (drop 8 s)) = dot # rest"
    and g: "g = takeWhile non_dot (dropWhile is_space (drop 8 s)) @ [dot]"
    using p by (auto simp: match_example_def split: list.splits)
  have ne: "dropWhile is_space (drop 8 s) \<noteq> []"
  proof
    assume "dropWhile is_space (drop 8 s) = []"
    with d show False by simp
  qed
  have 1: "dropWhile is_space (drop 8 (s @ x)) = dropWhile is_space (drop 8 s) @ x"
    using l ne by (simp add: dropWhile_append_nonempty)
  have 2: "dropWhile non_dot (dropWhile is_space (drop 8 s) @ x) = dot # rest @ x"
    using d by (simp add: dropWhile_append_nonempty)
  have 3: "takeWhile non_dot (dropWhile is_space (drop 8 s) @ x)
             = takeWhile non_dot (dropWhile is_space (drop 8 s))"
    using d by (simp add: takeWhile_append_nonempty)
  have "prefix ''Example:'' (s @ x)" using p by (rule prefix_prefix)
  then show ?thesis
    unfolding match_example_def [of "s @ x"] by (simp only: if_True 1 2 3 list.case g)
qed

lemma marker_chars:
  "prefix ''Example:'' y \<Longrightarrow> 0 < k \<Longrightarrow> k < 8 \<Longrightarrow> y ! k \<noteq> CHR ''E''"
  by (auto simp: prefix_def nth_Cons' less_Suc_eq eval_nat_numeral)

lemma no_straddle:
  assumes p: "p \<noteq> []" and np: "\<not> prefix ''Example:'' p" and X: "prefix ''Example:'' X"
  shows "\<not> prefix ''Example:'' (p @ X)"
proof
  assume a: "prefix ''Example:'' (p @ X)"
  then obtain us where us: "''Example:'' = p @ us"
    using np by (auto simp: prefix_append)
  have "us \<noteq> []"
  proof
    assume "us = []"
    with us have "p = ''Example:''" by simp
    with np show False by simp
  qed
  then have "length (p @ us) > length p" by simp
  then have "length p < 8" unfolding us [symmetric] by simp
  moreover have "0 < length p" using p by simp
  ultimately have "(p @ X) ! length p \<noteq> CHR ''E''"
    using a by (intro marker_chars)
  moreover have "X ! 0 = CHR ''E''" using X by (auto simp: prefix_def)
  ultimately show False by (simp add: nth_append)
qed

lemma match_example_None_cases:
  "match_example (c # cs) = None \<Longrightarrow> \<not> prefix ''Example:'' (c # cs) \<or> open_example (c # cs)"
proof -
  assume n: "match_example (c # cs) = None"
  show ?thesis
  proof (cases "prefix ''Example:'' (c # cs)")
    case False
    then show ?thesis by simp
  next
    case True
    then obtain z where z: "c # cs = ''Example:'' @ z" by (auto simp: prefix_def)
    with n True have "dropWhile non_dot (dropWhile is_space z) = []"
      by (auto simp: match_example_def split: list.splits)
    then have "\<forall>x\<in>set (dropWhile is_space z). x \<noteq> CHR ''.''"
      by (simp add: dropWhile_eq_Nil_conv non_dot_def)
    moreover have "\<forall>x\<in>set (takeWhile is_space z). x \<noteq> CHR ''.''"
      by (auto dest!: set_takeWhileD simp: is_space_def)
    ultimately have "\<forall>x\<in>set (takeWhile is_space z @ dropWhile is_space z). x \<noteq> CHR ''.''"
      by (simp only: set_append) blast
    then have "CHR ''.'' \<notin> set z" by auto
    then have "CHR ''.'' \<notin> set cs" using z by auto
    with True show ?thesis by simp
  qed
qed

lemma match_example_occurrence:
  assumes S: "CHR ''.'' \<notin> set S"
  shows "match_example (''Example: '' @ S @ ''.'' @ post)
           = Some (dropWhile is_space S @ ''.'', post)"
proof -
  have sp: "\<not> is_space CHR ''.''" by (simp add: is_space_def)
  have 1: "dropWhile is_space (S @ CHR ''.'' # post) = dropWhile is_space S @ CHR ''.'' # post"
    by (rule dropWhile_before_stop) (simp add: sp)
  have nd: "list_all non_dot (dropWhile is_space S)"
    using S by (intro list_all_dropWhile) (auto simp: list_all_iff non_dot_def)
  have st: "CHR ''.'' # post = [] \<or> \<not> non_dot (hd (CHR ''.'' # post))"
    by (simp add: non_dot_def)
  have 2: "takeWhile non_dot (dropWhile is_space S @ CHR ''.'' # post) = dropWhile is_space S"
    using nd st by (rule takeWhile_run)
  have 3: "dropWhile non_dot (dropWhile is_space S @ CHR ''.'' # post) = CHR ''.'' # post"
    using nd st by (rule dropWhile_run)
  show ?thesis
    by (simp add: match_example_def is_space_def [of "CHR '' ''"] 1 2 3)
qed

lemma trim_sentence: "trim (dropWhile is_space S @ ''.'') = trim (S @ ''.'')"
proof -
  have sp: "''.'' = [] \<or> \<not> is_space (hd ''.'')" by (simp add: is_space_def)
  have "dropWhile is_space (dropWhile is_space S @ ''.'') = dropWhile is_space (dropWhile is_space S) @ ''.''"
    using sp by (rule dropWhile_before_stop)
  moreover have "dropWhile is_space (S @ ''.'') = dropWhile is_space S @ ''.''"
    using sp by (rule dropWhile_before_stop)
  ultimately show ?thesis by (simp add: trim_def)
qed

lemma match_example_no_prefix: "\<not> prefix ''Example:'' s \<Longrightarrow> match_example s = None"
  by (simp add: match_example_def)

lemma match_example_prefix: "match_example X = Some m \<Longrightarrow> prefix ''Example:'' X"
  by (auto simp: match_example_def split: if_splits)

lemma exampleLoop_occurrence:
  assumes X: "match_example X = Some (g, post)"
  shows "\<not> open_example pre \<Longrightarrow>
     exampleLoop (pre @ X) = exampleLoop pre @ trim g # exampleLoop post"
proof (induction pre rule: exampleLoop.induct)
  case 1
  obtain c cs where "X = c # cs"
    using match_example_prefix [OF X] by (cases X) auto
  then show ?case using X by simp
next
  case (2 c cs)
  show ?case
  proof (cases "match_example (c # cs)")
    case (Some m)
    obtain g' rest where m: "m = (g', rest)" by (cases m)
    have a: "match_example (c # cs @ X) = Some (g', rest @ X)"
      using match_example_append [of "c # cs" g' rest X] Some m by simp
    have o: "\<not> open_example rest"
      using "2.prems" match_example_rest_suffix [of "c # cs" g' rest] Some m
      by (blast dest: open_example_suffix)
    have "exampleLoop (rest @ X) = exampleLoop rest @ trim g # exampleLoop post"
      using Some m [symmetric] o by (rule "2.IH"(2))
    then show ?thesis using a Some m by simp
  next
    case None
    then have np: "\<not> prefix ''Example:'' (c # cs)"
      using "2.prems" by (blast dest: match_example_None_cases)
    have "\<not> prefix ''Example:'' ((c # cs) @ X)"
      using _ np match_example_prefix [OF X] by (rule no_straddle) simp
    then have "match_example ((c # cs) @ X) = None"
      by (rule match_example_no_prefix)
    then have a: "match_example (c # cs @ X) = None" by simp
    have "\<not> open_example cs" using "2.prems" by simp
    with None have "exampleLoop (cs @ X) = exampleLoop cs @ trim g # exampleLoop post"
      by (rule "2.IH"(1))
    then show ?thesis using a None by simp
  qed
qed

lemma removeExamples_occurrence:
  assumes X: "match_example X = Some (g, post)"
  shows "\<not> open_example pre \<Longrightarrow>
     removeExamples (pre @ X) = removeExamples pre @ removeExamples post"
proof (induction pre rule: removeExamples.induct)
  case 1
  obtain c cs where "X = c # cs"
    using match_example_prefix [OF X] by (cases X) auto
  then show ?case using X by simp
next
  case (2 c cs)
  show ?case
  proof (cases "match_example (c # cs)")
    case (Some m)
    obtain g' rest where m: "m = (g', rest)" by (cases m)
    have a: "match_example (c # cs @ X) = Some (g', rest @ X)"
      using match_example_append [of "c # cs" g' rest X] Some m by simp
    have o: "\<not> open_example rest"
      using "2.prems" match_example_rest_suffix [of "c # cs" g' rest] Some m
      by (blast dest: open_example_suffix)
    have "removeExamples (rest @ X) = removeExamples rest @ removeExamples post"
      using Some m [symmetric] o by (rule "2.IH"(2))
    then show ?thesis using a Some m by simp
  next
    case None
    then have np: "\<not> prefix ''Example:'' (c # cs)"
      using "2.prems" by (blast dest: match_example_None_cases)
    have "\<not> prefix ''Example:'' ((c # cs) @ X)"
      using _ np match_example_prefix [OF X] by (rule no_straddle) simp
    then have "match_example ((c # cs) @ X) = None"
      by (rule match_example_no_prefix)
    then have a: "match_example (c # cs @ X) = None" by simp
    have "\<not> open_example cs" using "2.prems" by simp
    with None have "removeExamples (cs @ X) = removeExamples cs @ removeExamples post"
      by (rule "2.IH"(1))
    then show ?thesis using a None by simp
  qed
qed

text \<open>
  Claim C6, as amended.  Let a rule body be \<open>pre\<close>, then \<^verbatim>\<open>Example: \<close>, a sentence \<open>S\<close> without
  a period, its final period, and \<open>post\<close>, where every \<^verbatim>\<open>Example:\<close> marker inside \<open>pre\<close> has a
  period after it inside \<open>pre\<close>.  Then the list of examples of the record holds the
  sentence with its final period (trimmed), and the text of the record is what is left of
  \<open>pre\<close> and of \<open>post\<close> once their own examples are removed, trimmed: the occurrence is not
  part of it.
\<close>

theorem createRuleEntry_example:
  assumes pre: "\<not> open_example pre" and S: "CHR ''.'' \<notin> set S"
  shows "trim (S @ ''.'')
           \<in> set (examples (createRuleEntry number (pre @ ''Example: '' @ S @ ''.'' @ post) chapter sec))
         \<and> ruleText (createRuleEntry number (pre @ ''Example: '' @ S @ ''.'' @ post) chapter sec)
             = trim (removeExamples pre @ removeExamples post)"
proof -
  define X where "X = ''Example: '' @ S @ ''.'' @ post"
  have m: "match_example X = Some (dropWhile is_space S @ ''.'', post)"
    unfolding X_def using S by (rule match_example_occurrence)
  have e: "exampleLoop (pre @ X) = exampleLoop pre @ trim (S @ ''.'') # exampleLoop post"
    using exampleLoop_occurrence [OF m pre] by (simp only: trim_sentence)
  have r: "removeExamples (pre @ X) = removeExamples pre @ removeExamples post"
    using m pre by (rule removeExamples_occurrence)
  have "trim (S @ ''.'') \<in> set (examples (createRuleEntry number (pre @ X) chapter sec))
        \<and> ruleText (createRuleEntry number (pre @ X) chapter sec)
            = trim (removeExamples pre @ removeExamples post)"
    by (simp add: createRuleEntry_def e r)
  then show ?thesis unfolding X_def .
qed

text \<open>The theorem at the rule body of the end-to-end example of the specification.\<close>

theorem createRuleEntry_example_witness:
  "''A player draws a card.''
     \<in> set (examples (createRuleEntry ''100.1'' ''These are the rules. Example: A player draws a card.'' ''General'' ''General''))
   \<and> ruleText (createRuleEntry ''100.1'' ''These are the rules. Example: A player draws a card.'' ''General'' ''General'')
       = ''These are the rules.''"
  using createRuleEntry_example [of "''These are the rules. ''" "''A player draws a card''" "''100.1''" "[]" "''General''" "''General''"]
  by (simp add: trim_def is_space_def match_example_def)

text \<open>
  Without the two conditions the claim fails.  An \<^verbatim>\<open>Example:\<close> marker with no period of its
  own swallows the example that follows it: the list then holds neither that sentence nor
  that sentence with its period.  A sentence with a period inside is cut at that period:
  the list holds the first piece, and the rest of the sentence stays in the text.
\<close>

theorem createRuleEntry_nested_example:
  "sublist ''Example: Draw a card.'' ''Example: Example: Draw a card.''
   \<and> examples (createRuleEntry ''100.1'' ''Example: Example: Draw a card.'' ''General'' ''General'')
       = [''Example: Draw a card.'']
   \<and> sublist ''Example: Mr. Smith draws a card.'' ''See this. Example: Mr. Smith draws a card.''
   \<and> examples (createRuleEntry ''100.1'' ''See this. Example: Mr. Smith draws a card.'' ''General'' ''General'')
       = [''Mr.'']
   \<and> ruleText (createRuleEntry ''100.1'' ''See this. Example: Mr. Smith draws a card.'' ''General'' ''General'')
       = ''See this.  Smith draws a card.''"
  by code_simp

section \<open>Properties of the rules ingestion\<close>

subsection \<open>Batches\<close>

lemma row_of_null: "\<not> not_null (row_of e r)"
  by (simp add: not_null_def row_of_def)

lemma insert_rules_rejected:
  "batch \<noteq> [] \<Longrightarrow>
     insert_rules e batch w
       = (Inl (case db_fault e (trace w) of Some err \<Rightarrow> err | None \<Rightarrow> not_null_violation),
          w\<lparr>trace := trace w @ [InsertRules batch]\<rparr>)"
  by (cases batch) (simp_all add: insert_rules_def db_call_def row_of_null split: option.splits)

text \<open>
  Whatever rules were parsed, the loop ends at its first insert: the batch is the first
  100 rules (or all of them, when there are fewer), and it is rejected.
\<close>

lemma insertBatches_first_rejected:
  assumes "parsedRules \<noteq> []"
  shows "insertBatches e 0 parsedRules w
           = (Inl (case db_fault e (trace w) of Some err \<Rightarrow> err | None \<Rightarrow> not_null_violation),
              w\<lparr>trace := trace w @ [InsertRules (take 100 parsedRules)]\<rparr>)"
proof -
  have "slice 0 (0 + batchSize) parsedRules = take 100 parsedRules"
    by (simp add: slice_def batchSize_def)
  moreover have "take 100 parsedRules \<noteq> []"
    using assms by simp
  ultimately show ?thesis
    using assms by (subst insertBatches.simps) (simp add: insert_rules_rejected)
qed

text \<open>
  Claim C7.  The claim is that \<^verbatim>\<open>updateRulesDatabase\<close> inserts the parsed rules in batches of
  100, with three inserts of 100, 100 and 50 records for 250 parsed rules.  The loop of
  the source cuts these batches, but the records of \<^verbatim>\<open>createRuleEntry\<close> hold the rule number
  under the key \<^verbatim>\<open>ruleNumber\<close>, where the table has the column \<^verbatim>\<open>rule_number\<close>, declared not
  null.  The first insert, of the first 100 records, is therefore rejected by the
  database, also when no call fails for any other reason; the loop ends with that error
  after one insert, and no rule is stored.
\<close>

theorem insertBatches_first_insert_rejected:
  "fst (insertBatches base_env 0 (replicate 250 sample_rule) base_world) = Inl not_null_violation
   \<and> trace (snd (insertBatches base_env 0 (replicate 250 sample_rule) base_world))
       = [InsertRules (replicate 100 sample_rule)]
   \<and> rules_table (snd (insertBatches base_env 0 (replicate 250 sample_rule) base_world)) = []"
  by (simp add: insertBatches_first_rejected base_env_def base_world_def)

subsection \<open>A source without rules\<close>

text \<open>
  Claim C9.  When the source file is read, the delete succeeds and the parser yields no
  record (as it does when the anchor is absent), \<^verbatim>\<open>updateRulesDatabase\<close> completes without
  error, the rules table is left empty whatever it held, and the only database call is
  the delete: nothing is inserted.
\<close>

theorem updateRulesDatabase_nothing_parsed:
  assumes "files w filePath = Some rulesText"
    and "db_fault e (trace w) = None"
    and "parseComprehensiveRules rulesText = []"
  shows "updateRulesDatabase e filePath w
           = (Inr (), w\<lparr>trace := trace w @ [DeleteRules], rules_table := []\<rparr>)"
  using assms
  by (simp add: updateRulesDatabase_def readFileSync_def delete_rules_def db_call_def
      insertBatches.simps)

text \<open>The theorem at a table of two rules and a source file without the anchor.\<close>

theorem updateRulesDatabase_nothing_parsed_witness:
  "updateRulesDatabase base_env ''rules.txt''
     (base_world\<lparr>rules_table := [sample_row, sample_row],
                 files := (\<lambda>p. None)(''rules.txt'' \<mapsto> ''100. General 100.1. These are the rules.'')\<rparr>)
   = (Inr (), base_world\<lparr>rules_table := [],
                files := (\<lambda>p. None)(''rules.txt'' \<mapsto> ''100. General 100.1. These are the rules.''),
                trace := [DeleteRules]\<rparr>)"
proof -
  have p: "parseComprehensiveRules ''100. General 100.1. These are the rules.'' = []"
    by (simp add: parseComprehensiveRules_def indexOf_def anchor_def)
  show ?thesis
    using updateRulesDatabase_nothing_parsed [of
        "base_world\<lparr>rules_table := [sample_row, sample_row],
                 files := (\<lambda>p. None)(''rules.txt'' \<mapsto> ''100. General 100.1. These are the rules.'')\<rparr>"
        "''rules.txt''" "''100. General 100.1. These are the rules.''" base_env, OF _ _ p]
    by (simp add: base_env_def base_world_def)
qed

subsection \<open>The staleness gate of the rules\<close>

lemma days_lt: "((of_int d / (1000 * 60 * 60 * 24) :: rat) < 7) = (d < 604800000)"
  by (simp add: field_simps)

text \<open>
  Claim C3, as amended.  \<^verbatim>\<open>updateRulesFromWotc\<close> reads one row of the rules table with a
  query that asks for no order, and checks the age of that row, which need not be the
  most recently created one.  When the query succeeds and the row it returns has a
  creation time less than 7 days old, the function returns success with the message that
  ends in \<^verbatim>\<open>Skipping update.\<close>; the only call it makes is that query, so there is no
  network call and no change of the database or of the files.
\<close>

theorem updateRulesFromWotc_skips:
  assumes "db_fault e (trace w) = None"
    and "rules_table w = row # rows"
    and "createdAt row = Some t"
    and "now e - t < 7 * 24 * 60 * 60 * 1000"
  shows "updateRulesFromWotc e w
           = (Inr \<lparr> success = True,
                    message = ''Rules were updated ''
                      @ show_int (math_round (of_int (now e - t) / (1000 * 60 * 60 * 24)))
                      @ '' days ago. Skipping update.'' \<rparr>,
              w\<lparr>trace := trace w @ [SelectRules]\<rparr>)"
  using assms
  by (simp add: updateRulesFromWotc_def wotcTry_def select_rules_limit1_def db_call_def
      daysSinceUpdate_def days_lt)

text \<open>The theorem at a table whose one row is three days old.\<close>

theorem updateRulesFromWotc_skips_witness:
  "updateRulesFromWotc base_env
     (base_world\<lparr>rules_table := [sample_row\<lparr>createdAt := Some 604800000\<rparr>]\<rparr>)
   = (Inr \<lparr> success = True, message = ''Rules were updated 3 days ago. Skipping update.'' \<rparr>,
      base_world\<lparr>rules_table := [sample_row\<lparr>createdAt := Some 604800000\<rparr>],
                 trace := [SelectRules]\<rparr>)"
proof -
  have d: "show_int (math_round (of_int (864000000 - 604800000) / (1000 * 60 * 60 * 24))) = ''3''"
    by code_simp
  show ?thesis
    using updateRulesFromWotc_skips [of base_env
        "base_world\<lparr>rules_table := [sample_row\<lparr>createdAt := Some 604800000\<rparr>]\<rparr>"
        "sample_row\<lparr>createdAt := Some 604800000\<rparr>" "[]" 604800000] d
    by (simp add: base_env_def base_world_def)
qed

text \<open>
  The newest row does not decide.  Here the table holds a row created ten days ago and,
  after it, a row created three days ago; the query returns the first, and the function
  goes on to the download.
\<close>

theorem updateRulesFromWotc_first_row_old:
  "fst (updateRulesFromWotc base_env
     (base_world\<lparr>rules_table := [sample_row\<lparr>createdAt := Some 0\<rparr>,
                                 sample_row\<lparr>createdAt := Some 604800000\<rparr>]\<rparr>))
     = Inl ''Network error downloading rules: offline''
   \<and> trace (snd (updateRulesFromWotc base_env
     (base_world\<lparr>rules_table := [sample_row\<lparr>createdAt := Some 0\<rparr>,
                                 sample_row\<lparr>createdAt := Some 604800000\<rparr>]\<rparr>)))
     = [SelectRules, HttpGet rulesUrl]"
  by (simp add: updateRulesFromWotc_def wotcTry_def select_rules_limit1_def db_call_def
      daysSinceUpdate_def downloadLatest_def downloadRules_def base_env_def base_world_def)

subsection \<open>A failed download\<close>

text \<open>
  Claim C1.  The claim is that \<^verbatim>\<open>updateRulesFromWotc\<close> never rejects and falls back to the
  local rules file when the download fails.  The source returns the download promise from
  inside its \<^verbatim>\<open>try\<close> block without awaiting it, so a rejection of that promise does not
  reach the \<^verbatim>\<open>catch\<close> block that holds the fallback.  Here the rules table is empty, the
  local rules file exists and the server answers 404: the function rejects with the
  download error, and its only calls are the query and the request; the local file is
  never read.
\<close>

theorem updateRulesFromWotc_rejects_on_404:
  "fst (updateRulesFromWotc (base_env\<lparr>http := Response 404 []\<rparr>)
     (base_world\<lparr>files := (\<lambda>p. None)(localRulesPath \<mapsto> ''1. Game Concepts 100.1. These are the rules.'')\<rparr>))
     = Inl ''Failed to download rules. HTTP status: 404''
   \<and> trace (snd (updateRulesFromWotc (base_env\<lparr>http := Response 404 []\<rparr>)
     (base_world\<lparr>files := (\<lambda>p. None)(localRulesPath \<mapsto> ''1. Game Concepts 100.1. These are the rules.'')\<rparr>)))
     = [SelectRules, HttpGet rulesUrl]"
proof -
  have s: "show_nat 404 = ''404''" by code_simp
  show ?thesis
    by (simp add: updateRulesFromWotc_def wotcTry_def select_rules_limit1_def db_call_def
      downloadLatest_def downloadRules_def base_env_def base_world_def s del: show_nat.simps)
qed

text \<open>
  A rejection of the download promise is the rejection of \<^verbatim>\<open>updateRulesFromWotc\<close>, whatever
  the error.  \<^verbatim>\<open>updateCardDatabase\<close>, which awaits every call inside its \<^verbatim>\<open>try\<close> blocks,
  returns a result in every execution.
\<close>

lemma download_rejection_escapes:
  "wotcTry e w = (Inr (Inl err), w') \<Longrightarrow> updateRulesFromWotc e w = (Inl err, w')"
  by (simp add: updateRulesFromWotc_def)

lemma updateCardDatabase_returns: "\<exists>r. fst (updateCardDatabase e w) = Inr r"
  by (auto simp: updateCardDatabase_def split: prod.splits sum.splits)

section \<open>Properties of the card database refresh\<close>

lemma hours_lt: "((of_int d / (1000 * 60 * 60) :: rat) < 24) = (d < 86400000)"
  by (simp add: field_simps)

text \<open>
  Claim C5.  When the metadata query succeeds and the metadata row has a
  \<^verbatim>\<open>last_updated\<close> less than 24 hours old, \<^verbatim>\<open>updateCardDatabase\<close> returns success with the
  message \<^verbatim>\<open>Database is up to date\<close> (and that \<^verbatim>\<open>last_updated\<close>); the only call it makes is
  the metadata query, so neither the card refresh nor the rules refresh is invoked, and
  the tables and files are as before.
\<close>

theorem updateCardDatabase_up_to_date:
  assumes "db_fault e (trace w) = None"
    and "db_metadata w ''card_database'' = Some row"
    and "last_updated row = Some lu"
    and "now e - lu < 24 * 60 * 60 * 1000"
  shows "updateCardDatabase e w
           = (Inr \<lparr> success = True, message = ''Database is up to date'',
                    reported_last_updated = Some lu, cardResult = None, rulesResult = None \<rparr>,
              w\<lparr>trace := trace w @ [SelectMetadata]\<rparr>)"
  using assms
  by (simp add: updateCardDatabase_def cardTry_def select_metadata_def db_call_def upToDate_def
      hours_lt)

text \<open>The theorem at a metadata row written twelve hours ago.\<close>

theorem updateCardDatabase_up_to_date_witness:
  "updateCardDatabase base_env
     (base_world\<lparr>db_metadata := (\<lambda>i. None)(''card_database'' \<mapsto>
        \<lparr> last_updated = Some 820800000, total_cards = Some 3, description = Some ''Cards updated'' \<rparr>)\<rparr>)
   = (Inr \<lparr> success = True, message = ''Database is up to date'',
            reported_last_updated = Some 820800000, cardResult = None, rulesResult = None \<rparr>,
      base_world\<lparr>db_metadata := (\<lambda>i. None)(''card_database'' \<mapsto>
        \<lparr> last_updated = Some 820800000, total_cards = Some 3, description = Some ''Cards updated'' \<rparr>),
        trace := [SelectMetadata]\<rparr>)"
  using updateCardDatabase_up_to_date [of base_env
      "base_world\<lparr>db_metadata := (\<lambda>i. None)(''card_database'' \<mapsto>
        \<lparr> last_updated = Some 820800000, total_cards = Some 3, description = Some ''Cards updated'' \<rparr>)\<rparr>"
      "\<lparr> last_updated = Some 820800000, total_cards = Some 3, description = Some ''Cards updated'' \<rparr>"
      820800000]
  by (simp add: base_env_def base_world_def)

subsection \<open>A failed card refresh\<close>

lemma db_call_metadata:
  "(\<And>v. db_metadata (change v) = db_metadata v) \<Longrightarrow>
     db_metadata (snd (db_call e ev w result change)) = db_metadata w"
  by (simp add: db_call_def split: option.splits)

lemma insert_rules_metadata: "db_metadata (snd (insert_rules e batch w)) = db_metadata w"
  by (simp add: insert_rules_def db_call_def split: option.splits)

lemma insertBatches_metadata: "db_metadata (snd (insertBatches e i parsed w)) = db_metadata w"
proof (induction e i parsed w rule: insertBatches.induct)
  case (1 e i parsed w)
  show ?case
  proof (cases "i < length parsed")
    case False
    then show ?thesis by (subst insertBatches.simps) simp
  next
    case True
    obtain r w' where ins: "insert_rules e (slice i (i + batchSize) parsed) w = (r, w')"
      by (cases "insert_rules e (slice i (i + batchSize) parsed) w")
    have m: "db_metadata w' = db_metadata w"
      using insert_rules_metadata [of e "slice i (i + batchSize) parsed" w] ins by simp
    show ?thesis
    proof (cases r)
      case (Inl err)
      with True ins m show ?thesis by (subst insertBatches.simps) simp
    next
      case (Inr u)
      with True ins m "1.IH" [OF True ins [symmetric] Inr] show ?thesis
        by (subst insertBatches.simps) simp
    qed
  qed
qed

lemma updateRulesDatabase_metadata:
  "db_metadata (snd (updateRulesDatabase e path w)) = db_metadata w"
  by (auto simp: updateRulesDatabase_def delete_rules_def db_call_def insertBatches_metadata
      split: sum.splits prod.splits option.splits)

lemma updateRulesFromFile_metadata:
  "db_metadata (snd (updateRulesFromFile e w)) = db_metadata w"
  by (simp add: updateRulesFromFile_def updateRulesDatabase_metadata)

lemma downloadRules_metadata: "db_metadata (snd (downloadRules e w)) = db_metadata w"
proof -
  have u: "\<And>w0. db_metadata (snd (updateRulesDatabase e tempFilePath w0)) = db_metadata w0"
    by (rule updateRulesDatabase_metadata)
  show ?thesis
    unfolding downloadRules_def Let_def
    by (auto split: http_outcome.splits option.splits prod.splits sum.splits
        dest!: arg_cong [where f = "\<lambda>x. db_metadata (snd x)"] simp: u)
qed

lemma downloadLatest_metadata: "db_metadata (snd (downloadLatest e w)) = db_metadata w"
  using downloadRules_metadata [of e w]
    downloadRules_metadata [of e "w\<lparr>dir_exists := (dir_exists w)(tempDir := True)\<rparr>"]
  by (auto simp: downloadLatest_def split: prod.splits option.splits)

lemma wotcTry_metadata: "db_metadata (snd (wotcTry e w)) = db_metadata w"
  using downloadLatest_metadata [of e "w\<lparr>trace := trace w @ [SelectRules]\<rparr>"]
  by (auto simp: wotcTry_def select_rules_limit1_def db_call_def
      split: prod.splits option.splits sum.splits list.splits)

lemma updateRulesFromWotc_metadata: "db_metadata (snd (updateRulesFromWotc e w)) = db_metadata w"
proof -
  obtain r w1 where t: "wotcTry e w = (r, w1)" by (cases "wotcTry e w")
  have m: "db_metadata w1 = db_metadata w" using wotcTry_metadata [of e w] t by simp
  show ?thesis
    using t m updateRulesFromFile_metadata [of e w1]
    by (auto simp: updateRulesFromWotc_def wotcCatch_def split: sum.splits prod.splits)
qed

text \<open>
  Claim C2, as amended.  When the metadata query succeeds, the data is not up to date and
  the card refresh reports failure, the rules refresh still runs, right after the card
  refresh; the function returns the card result and the rules result, with a success flag
  that is the conjunction of the two flags, hence false; and the metadata table is left
  as it was: the upsert is made only when the card refresh succeeded.
\<close>

theorem updateCardDatabase_card_failure:
  assumes sel: "db_fault e (trace w) = None"
    and stale: "upToDate (now e) (db_metadata w ''card_database'') = None"
    and card: "card_refresh e = Inr c"
    and failed: "\<not> success c"
  shows "updateCardDatabase e w
           = (Inr \<lparr> success = False,
                    message = ''Cards: '' @ message c @ ''. Rules: ''
                      @ message (awaitRules (fst (updateRulesFromWotc e
                          (w\<lparr>trace := trace w @ [SelectMetadata, CardRefresh]\<rparr>)))),
                    reported_last_updated = None, cardResult = Some c,
                    rulesResult = Some (awaitRules (fst (updateRulesFromWotc e
                          (w\<lparr>trace := trace w @ [SelectMetadata, CardRefresh]\<rparr>)))) \<rparr>,
              snd (updateRulesFromWotc e (w\<lparr>trace := trace w @ [SelectMetadata, CardRefresh]\<rparr>)))
         \<and> db_metadata (snd (updateCardDatabase e w)) = db_metadata w"
proof -
  let ?w = "w\<lparr>trace := trace w @ [SelectMetadata, CardRefresh]\<rparr>"
  obtain p w2 where r: "updateRulesFromWotc e ?w = (p, w2)"
    by (cases "updateRulesFromWotc e ?w")
  have m: "db_metadata w2 = db_metadata w"
    using updateRulesFromWotc_metadata [of e ?w] r by simp
  have "updateCardDatabase e w = (Inr (combined c (awaitRules p)), w2)"
    using assms r
    by (simp add: updateCardDatabase_def cardTry_def select_metadata_def db_call_def)
  then show ?thesis
    using r m failed by (simp add: combined_def)
qed

text \<open>The theorem at a first run whose card refresh fails while the network is down.\<close>

theorem updateCardDatabase_card_failure_witness:
  "updateCardDatabase (base_env\<lparr>card_refresh := Inr \<lparr> success = False, message = ''download failed'' \<rparr>\<rparr>) base_world
     = (Inr \<lparr> success = False,
              message = ''Cards: download failed. Rules: Rules update failed: Network error downloading rules: offline'',
              reported_last_updated = None,
              cardResult = Some \<lparr> success = False, message = ''download failed'' \<rparr>,
              rulesResult = Some \<lparr> success = False,
                message = ''Rules update failed: Network error downloading rules: offline'' \<rparr> \<rparr>,
        base_world\<lparr>files := (\<lambda>p. None)(tempFilePath \<mapsto> []),
                   dir_exists := (\<lambda>d. False)(tempDir := True),
                   trace := [SelectMetadata, CardRefresh, SelectRules, HttpGet rulesUrl]\<rparr>)"
proof -
  let ?e = "base_env\<lparr>card_refresh := Inr \<lparr> success = False, message = ''download failed'' \<rparr>\<rparr>"
  have r: "updateRulesFromWotc ?e (base_world\<lparr>trace := trace base_world @ [SelectMetadata, CardRefresh]\<rparr>)
             = (Inl ''Network error downloading rules: offline'',
                base_world\<lparr>files := (\<lambda>p. None)(tempFilePath \<mapsto> []),
                   dir_exists := (\<lambda>d. False)(tempDir := True),
                   trace := [SelectMetadata, CardRefresh, SelectRules, HttpGet rulesUrl]\<rparr>)"
    by (simp add: updateRulesFromWotc_def wotcTry_def select_rules_limit1_def db_call_def
        downloadLatest_def downloadRules_def base_env_def base_world_def)
  show ?thesis
    using updateCardDatabase_card_failure [of ?e base_world "\<lparr> success = False, message = ''download failed'' \<rparr>"]
    by (simp add: r awaitRules_def upToDate_def) (simp add: base_env_def base_world_def)
qed

text \<open>
  The claim as the specification states it has the metadata row upserted all the same.
  After this run there is no metadata row, and no upsert among the calls.
\<close>

theorem updateCardDatabase_no_upsert_on_card_failure:
  "db_metadata (snd (updateCardDatabase
      (base_env\<lparr>card_refresh := Inr \<lparr> success = False, message = ''download failed'' \<rparr>\<rparr>) base_world))
     ''card_database'' = None
   \<and> trace (snd (updateCardDatabase
      (base_env\<lparr>card_refresh := Inr \<lparr> success = False, message = ''download failed'' \<rparr>\<rparr>) base_world))
     = [SelectMetadata, CardRefresh, SelectRules, HttpGet rulesUrl]"
  by (simp add: updateCardDatabase_def cardTry_def select_metadata_def upToDate_def
      updateRulesFromWotc_def wotcTry_def select_rules_limit1_def db_call_def
      downloadLatest_def downloadRules_def base_env_def base_world_def)

section \<open>Properties of the conversation history\<close>










end
